theory Spec2Isabelle
  imports Main "HOL-Library.AList"
begin

section \<open>Values shared by both source files\<close>

text \<open>
  Go errors.  \<open>ErrorsNew\<close> is \<^verbatim>\<open>errors.New\<close> and \<open>ErrorsWrap\<close> is
  \<^verbatim>\<open>errors.Wrap\<close> of github.com/pkg/errors; \<open>External\<close> stands for an error
  value produced inside client-go or controller-runtime.  A Go \<^verbatim>\<open>error\<close> that may be
  \<^verbatim>\<open>nil\<close> is an \<open>error option\<close>.
\<close>

datatype error = ErrorsNew string | ErrorsWrap error string | External string

fun error_message :: "error \<Rightarrow> string" where
  "error_message (ErrorsNew m) = m"
| "error_message (ErrorsWrap e m) = m @ '': '' @ error_message e"
| "error_message (External m) = m"

text \<open>
  A method call through a nil pointer or a nil interface, and a call of a nil function
  value, make the Go runtime panic; no result is returned.
\<close>

datatype panic = NilDereference

text \<open>\<^verbatim>\<open>context.Context\<close>: all that the modelled code can see of it is whether it is cancelled.\<close>

datatype Context = Background | Cancelled

subsection \<open>apimachinery: schema and unstructured objects\<close>

record GroupVersion =
  gv_Group :: string
  gv_Version :: string

record GroupVersionKind =
  gvk_Group :: string
  gvk_Version :: string
  gvk_Kind :: string

record GroupVersionResource =
  gvr_Group :: string
  gvr_Version :: string
  gvr_Resource :: string

text \<open>The zero value \<^verbatim>\<open>schema.GroupVersionResource{}\<close>.\<close>

definition GroupVersionResource_zero :: GroupVersionResource where
  "GroupVersionResource_zero = \<lparr>gvr_Group = [], gvr_Version = [], gvr_Resource = []\<rparr>"

text \<open>\<^verbatim>\<open>gvk.GroupVersion()\<close>, \<^verbatim>\<open>GroupVersion.String()\<close> and \<^verbatim>\<open>GroupVersionKind.String()\<close>.\<close>

definition gvk_GroupVersion :: "GroupVersionKind \<Rightarrow> GroupVersion" where
  "gvk_GroupVersion gvk = \<lparr>gv_Group = gvk_Group gvk, gv_Version = gvk_Version gvk\<rparr>"

definition gv_String :: "GroupVersion \<Rightarrow> string" where
  "gv_String gv =
     (if length (gv_Group gv) > 0 then gv_Group gv @ ''/'' @ gv_Version gv else gv_Version gv)"

definition gvk_String :: "GroupVersionKind \<Rightarrow> string" where
  "gvk_String gvk = gvk_Group gvk @ ''/'' @ gvk_Version gvk @ '', Kind='' @ gvk_Kind gvk"

text \<open>
  \<^verbatim>\<open>unstructured.Unstructured\<close>, reduced to the accessors the code reads: the
  group/version/kind, the namespace, the name and the resource version.
\<close>

record Unstructured =
  u_gvk :: GroupVersionKind
  u_namespace :: string
  u_name :: string
  u_resourceVersion :: string

text \<open>
  Objects are passed as \<^verbatim>\<open>*unstructured.Unstructured\<close>.  A pointer is an address; the heap
  maps the addresses of live objects to their contents, and an address outside its domain
  is the nil pointer.
\<close>

type_synonym ptr = nat

record 'srv world =
  heap :: "ptr \<rightharpoonup> Unstructured"
  server :: 'srv

subsection \<open>controller-runtime and client-go handles held by the client\<close>

record CreateOptions =
  FieldManager :: string

text \<open>
  \<^verbatim>\<open>client.Client\<close> of controller-runtime.  \<open>Create\<close> sends the object to the server and
  writes the server's answer back into the object it was given; it returns the object as it
  is after the call, the error (or nil) and the new server state.
\<close>

record 'srv Client =
  Create :: "Context \<Rightarrow> Unstructured \<Rightarrow> CreateOptions \<Rightarrow> 'srv \<Rightarrow> (Unstructured \<times> error option) \<times> 'srv"

text \<open>\<^verbatim>\<open>runtime.Scheme\<close>: the versions it has seen, which is what \<^verbatim>\<open>IsVersionRegistered\<close> reads.\<close>

record Scheme =
  observedVersions :: "GroupVersion list"

definition IsVersionRegistered :: "Scheme \<Rightarrow> GroupVersion \<Rightarrow> bool" where
  "IsVersionRegistered s version = (version \<in> set (observedVersions s))"

record 'srv Cluster =
  GetScheme :: Scheme
  GetClient :: "'srv Client"

record APIResource =
  api_Name :: string
  api_Kind :: string

record APIResourceList =
  arl_GroupVersion :: string
  APIResources :: "APIResource list"

text \<open>
  \<^verbatim>\<open>kubernetes.Clientset\<close> with its discovery client: the two server queries the code
  makes through it.  Each either fails or answers.
\<close>

record 'srv Clientset =
  ServerResourcesForGroupVersion :: "string \<Rightarrow> 'srv \<Rightarrow> error + APIResourceList"
  ServerVersion :: "'srv \<Rightarrow> error + string"

subsection \<open>Client configuration\<close>

record clientcmd_Cluster =
  Server :: string
  TLSServerName :: string
  InsecureSkipTLSVerify :: bool
  CertificateAuthorityData :: string

record clientcmd_AuthInfo =
  ClientCertificateData :: "string option"
  ClientKeyData :: "string option"
  Token :: string

record clientcmd_Context =
  ctx_Cluster :: string
  ctx_AuthInfo :: string
  ctx_Namespace :: string

record clientcmd_Config =
  Clusters :: "string \<rightharpoonup> clientcmd_Cluster"
  AuthInfos :: "string \<rightharpoonup> clientcmd_AuthInfo"
  Contexts :: "string \<rightharpoonup> clientcmd_Context"
  CurrentContext :: string

text \<open>\<^verbatim>\<open>clientcmdapi.NewConfig()\<close>: empty maps, no current context.\<close>

definition clientcmd_NewConfig :: clientcmd_Config where
  "clientcmd_NewConfig =
     \<lparr>Clusters = Map.empty, AuthInfos = Map.empty, Contexts = Map.empty, CurrentContext = []\<rparr>"

record rest_Config =
  Host :: string
  ServerName :: string
  BearerToken :: string

datatype DynamicClient = DynamicClientFor rest_Config

datatype Mutex = Mutex

section \<open>dynamic-helper.go: the generic client\<close>

definition AuthTypeToken :: string where
  "AuthTypeToken = ''TOKEN''"



text \<open>
  \<^verbatim>\<open>GenericK8sClient\<close>.  Pointer and interface fields are options, \<open>None\<close> being nil.
  \<open>mgrCtx\<close> with \<open>stopMgr\<close> is the cancellable context of the background manager.
\<close>

record 'srv GenericK8sClient =
  TargetK8sApiServerId :: string
  AuthType :: string
  kubeConfig :: "clientcmd_Config option"
  restConfig :: "rest_Config option"
  runtimeCluster :: "'srv Cluster option"
  mgrCtx :: Context
  standardClient :: "'srv Clientset option"
  dynamicClient :: "DynamicClient option"
  schemeLock :: "Mutex option"

definition GetDynamicClient :: "'srv GenericK8sClient \<Rightarrow> DynamicClient option" where
  "GetDynamicClient c = dynamicClient c"

definition GetStandardClient :: "'srv GenericK8sClient \<Rightarrow> 'srv Clientset option" where
  "GetStandardClient c = standardClient c"

definition GetRuntimeCluster :: "'srv GenericK8sClient \<Rightarrow> 'srv Cluster option" where
  "GetRuntimeCluster c = runtimeCluster c"

subsection \<open>Apply\<close>

record UnstructuredApplyResult =
  Gvk :: GroupVersionKind
  Success :: bool
  Error :: "error option"
  ResultObject :: ptr

text \<open>
  \<^verbatim>\<open>ApplyUnstructuredObj\<close>: one \<open>Create\<close> under the field manager, then the result is
  built from the object as the call left it.  The Go function returns the result and the
  error; here it also returns the world after the call.
\<close>

definition ApplyUnstructuredObj ::
  "'srv GenericK8sClient \<Rightarrow> Context \<Rightarrow> ptr \<Rightarrow> string \<Rightarrow> 'srv world
     \<Rightarrow> panic + ((UnstructuredApplyResult \<times> error option) \<times> 'srv world)" where
  "ApplyUnstructuredObj c ctx obj filedManager w =
     (case GetRuntimeCluster c of
        None \<Rightarrow> Inl NilDereference
      | Some cl \<Rightarrow>
          (case heap w obj of
             None \<Rightarrow> Inl NilDereference
           | Some u \<Rightarrow>
               (case Create (GetClient cl) ctx u \<lparr>FieldManager = filedManager\<rparr> (server w) of
                  ((u', err), s') \<Rightarrow>
                    Inr ((\<lparr>Gvk = u_gvk u', Success = (err = None), Error = err,
                           ResultObject = obj\<rparr>, err),
                         w\<lparr>heap := (heap w)(obj \<mapsto> u'), server := s'\<rparr>))))"

text \<open>
  The loop of \<^verbatim>\<open>ApplyUnstructuredObjsBatch\<close>, with the two result slices as accumulators.
\<close>

fun ApplyUnstructuredObjsBatch_loop ::
  "'srv GenericK8sClient \<Rightarrow> Context \<Rightarrow> string \<Rightarrow> ptr list
     \<Rightarrow> UnstructuredApplyResult list \<Rightarrow> UnstructuredApplyResult list \<Rightarrow> 'srv world
     \<Rightarrow> panic + ((UnstructuredApplyResult list \<times> UnstructuredApplyResult list) \<times> 'srv world)" where
  "ApplyUnstructuredObjsBatch_loop c ctx fieldManager [] successfulResults failedResults w =
     Inr ((successfulResults, failedResults), w)"
| "ApplyUnstructuredObjsBatch_loop c ctx fieldManager (obj # objs) successfulResults failedResults w =
     (case ApplyUnstructuredObj c ctx obj fieldManager w of
        Inl p \<Rightarrow> Inl p
      | Inr ((result, err), w') \<Rightarrow>
          if err \<noteq> None
          then ApplyUnstructuredObjsBatch_loop c ctx fieldManager objs
                 successfulResults (failedResults @ [result]) w'
          else ApplyUnstructuredObjsBatch_loop c ctx fieldManager objs
                 (successfulResults @ [result]) failedResults w')"

definition ApplyUnstructuredObjsBatch ::
  "'srv GenericK8sClient \<Rightarrow> Context \<Rightarrow> ptr list \<Rightarrow> string \<Rightarrow> 'srv world
     \<Rightarrow> panic + ((UnstructuredApplyResult list \<times> UnstructuredApplyResult list) \<times> 'srv world)" where
  "ApplyUnstructuredObjsBatch c ctx objs fieldManager w =
     ApplyUnstructuredObjsBatch_loop c ctx fieldManager objs [] [] w"

text \<open>
  What the batch is compared with: every object applied on its own, in the given order,
  whatever the outcome of the ones before it, one result per object.
\<close>

fun apply_each_in_order ::
  "'srv GenericK8sClient \<Rightarrow> Context \<Rightarrow> string \<Rightarrow> ptr list \<Rightarrow> 'srv world
     \<Rightarrow> panic + (UnstructuredApplyResult list \<times> 'srv world)" where
  "apply_each_in_order c ctx fieldManager [] w = Inr ([], w)"
| "apply_each_in_order c ctx fieldManager (obj # objs) w =
     (case ApplyUnstructuredObj c ctx obj fieldManager w of
        Inl p \<Rightarrow> Inl p
      | Inr ((result, err), w') \<Rightarrow>
          (case apply_each_in_order c ctx fieldManager objs w' of
             Inl p \<Rightarrow> Inl p
           | Inr (results, w'') \<Rightarrow> Inr (result # results, w'')))"


subsection \<open>Kind resolution\<close>

text \<open>The text of the error \<^verbatim>\<open>GvkToGvr\<close> makes when no resource matches, as UTF-8 bytes.\<close>

definition msg_not_found :: string where
  "msg_not_found =
     [CHR 0xE6, CHR 0x9C, CHR 0xAA, CHR 0xE6, CHR 0x89, CHR 0xBE, CHR 0xE5, CHR 0x88, CHR 0xB0,
      CHR 0xE7, CHR 0x9B, CHR 0xAE, CHR 0xE6, CHR 0xA0, CHR 0x87, CHR 0xE8, CHR 0xB5, CHR 0x84,
      CHR 0xE6, CHR 0xBA, CHR 0x90] @ '':''"

text \<open>The scan of \<^verbatim>\<open>resourcesList.APIResources\<close>, with the return that follows the loop.\<close>

fun GvkToGvr_scan :: "APIResource list \<Rightarrow> GroupVersionKind \<Rightarrow> GroupVersionResource \<times> error option" where
  "GvkToGvr_scan [] gvk =
     (GroupVersionResource_zero, Some (ErrorsNew (msg_not_found @ gvk_String gvk)))"
| "GvkToGvr_scan (resource # resources) gvk =
     (if api_Kind resource = gvk_Kind gvk
      then (\<lparr>gvr_Group = gvk_Group gvk, gvr_Version = gvk_Version gvk,
             gvr_Resource = api_Name resource\<rparr>, None)
      else GvkToGvr_scan resources gvk)"

definition GvkToGvr ::
  "'srv GenericK8sClient \<Rightarrow> GroupVersionKind \<Rightarrow> 'srv \<Rightarrow> panic + (GroupVersionResource \<times> error option)" where
  "GvkToGvr c gvk srv =
     (case GetStandardClient c of
        None \<Rightarrow> Inl NilDereference
      | Some sc \<Rightarrow>
          (case ServerResourcesForGroupVersion sc (gv_String (gvk_GroupVersion gvk)) srv of
             Inl err \<Rightarrow> Inr (GroupVersionResource_zero, Some err)
           | Inr resourcesList \<Rightarrow> Inr (GvkToGvr_scan (APIResources resourcesList) gvk)))"

subsection \<open>Scheme registration\<close>

text \<open>
  The registration callback \<^verbatim>\<open>func(s *runtime.Scheme) error\<close>: it may change the scheme
  and, being a closure, state of its caller (\<open>'x\<close>); it returns an error or nil.
\<close>

type_synonym 'x addSchemeFunc = "Scheme \<Rightarrow> 'x \<Rightarrow> (Scheme \<times> error option) \<times> 'x"

text \<open>
  \<^verbatim>\<open>AddScheme\<close>.  The mutex is held from entry to return, so calls do not interleave: a call
  is one step from the client and caller state before it to those after it.  The Go method
  has no result; what the model returns is the state it leaves.
\<close>

definition AddScheme ::
  "'srv GenericK8sClient \<Rightarrow> GroupVersion option \<Rightarrow> 'x addSchemeFunc option \<Rightarrow> 'x
     \<Rightarrow> panic + ('srv GenericK8sClient \<times> 'x)" where
  "AddScheme c gv addSchemeFunc x =
     (case schemeLock c of
        None \<Rightarrow> Inl NilDereference
      | Some lock \<Rightarrow>
          (case runtimeCluster c of
             None \<Rightarrow> Inl NilDereference
           | Some cl \<Rightarrow>
               (case gv of
                  None \<Rightarrow> Inl NilDereference
                | Some version \<Rightarrow>
                    if \<not> IsVersionRegistered (GetScheme cl) version
                    then (case addSchemeFunc of
                            None \<Rightarrow> Inl NilDereference
                          | Some f \<Rightarrow>
                              (case f (GetScheme cl) x of
                                 ((s', err), x') \<Rightarrow>
                                   Inr (c\<lparr>runtimeCluster := Some (cl\<lparr>GetScheme := s'\<rparr>)\<rparr>, x')))
                    else Inr (c, x))))"

text \<open>Two calls one after the other, as a caller makes them.\<close>

definition AddScheme_twice ::
  "'srv GenericK8sClient \<Rightarrow> GroupVersion option \<Rightarrow> 'x addSchemeFunc option
     \<Rightarrow> 'x addSchemeFunc option \<Rightarrow> 'x \<Rightarrow> panic + ('srv GenericK8sClient \<times> 'x)" where
  "AddScheme_twice c gv f g x =
     (case AddScheme c gv f x of
        Inl p \<Rightarrow> Inl p
      | Inr (c', x') \<Rightarrow> AddScheme c' gv g x')"

text \<open>
  A callback that counts its own executions in its caller's state, the way a test
  observes how often it ran.
\<close>

definition counting :: "'x addSchemeFunc \<Rightarrow> (nat \<times> 'x) addSchemeFunc" where
  "counting f s = (\<lambda>(n, x). case f s x of (r, x') \<Rightarrow> (r, (Suc n, x')))"

subsection \<open>Construction\<close>

definition msg_rest_config_failed :: string where
  "msg_rest_config_failed =
     [CHR 0xE4, CHR 0xBD, CHR 0xBF, CHR 0xE7, CHR 0x94, CHR 0xA8] @ ''clientcmdapi.Config''
     @ [CHR 0xE6, CHR 0x96, CHR 0xB9, CHR 0xE5, CHR 0xBC, CHR 0x8F, CHR 0xE6, CHR 0x9E, CHR 0x84,
        CHR 0xE5, CHR 0xBB, CHR 0xBA] @ ''rest client config''
     @ [CHR 0xE5, CHR 0xA4, CHR 0xB1, CHR 0xE8, CHR 0xB4, CHR 0xA5]"

definition msg_dynamic_client_failed :: string where
  "msg_dynamic_client_failed =
     [CHR 0xE5, CHR 0x88, CHR 0x9B, CHR 0xE5, CHR 0xBB, CHR 0xBA] @ ''dynamic client''
     @ [CHR 0xE5, CHR 0xA4, CHR 0xB1, CHR 0xE8, CHR 0xB4, CHR 0xA5]"

definition msg_standard_client_failed :: string where
  "msg_standard_client_failed =
     [CHR 0xE5, CHR 0x88, CHR 0x9B, CHR 0xE5, CHR 0xBB, CHR 0xBA] @ ''standard client''
     @ [CHR 0xE5, CHR 0xA4, CHR 0xB1, CHR 0xE8, CHR 0xB4, CHR 0xA5]"

definition msg_cluster_failed :: string where
  "msg_cluster_failed =
     [CHR 0xE5, CHR 0x88, CHR 0x9B, CHR 0xE5, CHR 0xBB, CHR 0xBA] @ ''runtime-controller.Cluster''"





definition msg_read_ca_failed :: string where
  "msg_read_ca_failed =
     [CHR 0xE6, CHR 0x97, CHR 0xA0, CHR 0xE6, CHR 0xB3, CHR 0x95, CHR 0xE8, CHR 0xAF, CHR 0xBB,
      CHR 0xE5, CHR 0x8F, CHR 0x96] @ ''CA Cert''
     @ [CHR 0xE6, CHR 0x96, CHR 0x87, CHR 0xE4, CHR 0xBB, CHR 0xB6] @ '':''"

definition msg_read_token_failed :: string where
  "msg_read_token_failed =
     [CHR 0xE6, CHR 0x97, CHR 0xA0, CHR 0xE6, CHR 0xB3, CHR 0x95, CHR 0xE8, CHR 0xAF, CHR 0xBB,
      CHR 0xE5, CHR 0x8F, CHR 0x96] @ ''Token''
     @ [CHR 0xE6, CHR 0x96, CHR 0x87, CHR 0xE4, CHR 0xBB, CHR 0xB6] @ '':''"

text \<open>
  The library calls construction makes, as the environment it runs in.  Each returns its
  value or an error.  \<open>clientcmd_ClientConfig\<close> is
  \<^verbatim>\<open>clientcmd.NewDefaultClientConfig(cfg, &clientcmd.ConfigOverrides{}).ClientConfig()\<close>;
  \<open>clientcmd_FromBytes\<close> is \<^verbatim>\<open>clientcmd.NewClientConfigFromBytes\<close> followed, when it
  succeeds, by the \<^verbatim>\<open>ClientConfig()\<close> of what it returned (\<open>clientcmd_BytesClientConfig\<close>).
  \<open>cluster_New\<close> is \<^verbatim>\<open>cluster.New\<close> with the options of an empty \<^verbatim>\<open>manager.Options\<close>; it
  is given the server because it may query it.  The two unexported constructors are called
  with a configuration that is not nil; a constructor returns either an error or a client.
\<close>

datatype ClientConfig = ClientConfigFromBytes string

record 'srv Lib =
  clientcmd_ClientConfig :: "clientcmd_Config \<Rightarrow> error + rest_Config"
  clientcmd_NewClientConfigFromBytes :: "string \<Rightarrow> error + ClientConfig"
  clientcmd_BytesClientConfig :: "ClientConfig \<Rightarrow> error + rest_Config"
  rest_InClusterConfig :: "error + rest_Config"
  dynamic_NewForConfig :: "rest_Config \<Rightarrow> error + DynamicClient"
  kubernetes_NewForConfig :: "rest_Config \<Rightarrow> error + 'srv Clientset"
  cluster_New :: "rest_Config \<Rightarrow> 'srv \<Rightarrow> error + 'srv Cluster"
  os_ReadFile :: "string \<Rightarrow> error + string"

definition newGenericK8sClientWithKubeConfigObj ::
  "'srv Lib \<Rightarrow> 'srv \<Rightarrow> string \<Rightarrow> string \<Rightarrow> clientcmd_Config \<Rightarrow> error + 'srv GenericK8sClient" where
  "newGenericK8sClientWithKubeConfigObj lib srv ident authType config =
     (case clientcmd_ClientConfig lib config of
        Inl err \<Rightarrow> Inl (ErrorsWrap err msg_rest_config_failed)
      | Inr restClientConfig \<Rightarrow>
     (case dynamic_NewForConfig lib restClientConfig of
        Inl err \<Rightarrow> Inl (ErrorsWrap err msg_dynamic_client_failed)
      | Inr dc \<Rightarrow>
     (case kubernetes_NewForConfig lib restClientConfig of
        Inl err \<Rightarrow> Inl (ErrorsWrap err msg_standard_client_failed)
      | Inr sc \<Rightarrow>
     (case cluster_New lib restClientConfig srv of
        Inl err \<Rightarrow> Inl (ErrorsWrap err msg_cluster_failed)
      | Inr clusterCli \<Rightarrow>
          Inr \<lparr>TargetK8sApiServerId = ident, AuthType = authType, kubeConfig = Some config,
               restConfig = Some restClientConfig, runtimeCluster = Some clusterCli,
               mgrCtx = Background, standardClient = Some sc, dynamicClient = Some dc,
               schemeLock = Some Mutex\<rparr>))))"


definition NewGenericK8sClientWithToken ::
  "'srv Lib \<Rightarrow> 'srv \<Rightarrow> string \<Rightarrow> string \<Rightarrow> string \<Rightarrow> string \<Rightarrow> string \<Rightarrow> bool
     \<Rightarrow> error + 'srv GenericK8sClient" where
  "NewGenericK8sClientWithToken lib srv ident apiServerUrl token caPem optionalTLSServerName skipTLSVerify =
     (let config = clientcmd_NewConfig;
          config = config\<lparr>Clusters := (Clusters config)(''cluster'' \<mapsto>
                     \<lparr>Server = apiServerUrl, TLSServerName = optionalTLSServerName,
                      InsecureSkipTLSVerify = skipTLSVerify, CertificateAuthorityData = caPem\<rparr>)\<rparr>;
          config = config\<lparr>AuthInfos := (AuthInfos config)(''cluster'' \<mapsto>
                     \<lparr>ClientCertificateData = None, ClientKeyData = None, Token = token\<rparr>)\<rparr>;
          config = config\<lparr>Contexts := (Contexts config)(''cluster'' \<mapsto>
                     \<lparr>ctx_Cluster = ''cluster'', ctx_AuthInfo = ''cluster'',
                      ctx_Namespace = ''default''\<rparr>)\<rparr>;
          config = config\<lparr>CurrentContext := ''cluster''\<rparr>
      in newGenericK8sClientWithKubeConfigObj lib srv ident AuthTypeToken config)"

text \<open>\<^verbatim>\<open>strings.TrimSuffix\<close>.\<close>

definition strings_TrimSuffix :: "string \<Rightarrow> string \<Rightarrow> string" where
  "strings_TrimSuffix s suffix =
     (if length suffix \<le> length s \<and> drop (length s - length suffix) s = suffix
      then take (length s - length suffix) s else s)"

definition NewGenericK8sClientWithSecretDir ::
  "'srv Lib \<Rightarrow> 'srv \<Rightarrow> string \<Rightarrow> string \<Rightarrow> string \<Rightarrow> string \<Rightarrow> error + 'srv GenericK8sClient" where
  "NewGenericK8sClientWithSecretDir lib srv ident authSecretDir apiServerUrl sni =
     (let dir = strings_TrimSuffix authSecretDir ''/'' in
      case os_ReadFile lib (dir @ ''/ca.crt'') of
        Inl err \<Rightarrow> Inl (ErrorsWrap err (msg_read_ca_failed @ dir @ ''/ca.crt''))
      | Inr caCert \<Rightarrow>
     (case os_ReadFile lib (dir @ ''/token'') of
        Inl err \<Rightarrow> Inl (ErrorsWrap err (msg_read_token_failed @ dir @ ''token''))
      | Inr token \<Rightarrow>
          NewGenericK8sClientWithToken lib srv ident apiServerUrl token caCert sni False))"




section \<open>types.go: the resource watcher\<close>

subsection \<open>client-go: indexers, handlers and the informer's store\<close>

text \<open>
  \<^verbatim>\<open>cache.IndexFunc\<close> returns the index values of an object and an error;
  \<^verbatim>\<open>cache.Indexers\<close> is a Go map from index name to index function.
  \<^verbatim>\<open>cache.NamespaceIndex\<close> is the string \<^verbatim>\<open>"namespace"\<close> and
  \<^verbatim>\<open>cache.MetaNamespaceIndexFunc\<close> indexes an object by its namespace alone.
\<close>

type_synonym IndexFunc = "Unstructured \<Rightarrow> string list \<times> error option"

type_synonym Indexers = "string \<rightharpoonup> IndexFunc"

definition cache_NamespaceIndex :: string where
  "cache_NamespaceIndex = ''namespace''"

definition cache_MetaNamespaceIndexFunc :: IndexFunc where
  "cache_MetaNamespaceIndexFunc obj = ([u_namespace obj], None)"


text \<open>
  \<^verbatim>\<open>cache.ResourceEventHandlerFuncs\<close>.  A handler is a caller's function; what it does is
  a change of the caller's state \<open>'x\<close>.  A field may be nil, and then the event is skipped,
  as \<^verbatim>\<open>OnAdd\<close>, \<^verbatim>\<open>OnUpdate\<close> and \<^verbatim>\<open>OnDelete\<close> do.
\<close>

record 'x ResourceEventHandlerFuncs =
  AddFunc :: "(Unstructured \<Rightarrow> 'x \<Rightarrow> 'x) option"
  UpdateFunc :: "(Unstructured \<Rightarrow> Unstructured \<Rightarrow> 'x \<Rightarrow> 'x) option"
  DeleteFunc :: "(Unstructured \<Rightarrow> 'x \<Rightarrow> 'x) option"




record ListOptions =
  LabelSelector :: string
  FieldSelector :: string

type_synonym TweakListOptionsFunc = "ListOptions \<Rightarrow> ListOptions"

text \<open>
  The informer \<^verbatim>\<open>dynamicinformer.NewFilteredDynamicInformer\<close> returns: what it was built
  from, the handlers registered with it, and its indexer's items by key (an association
  list with one entry per key).
\<close>

record 'x GenericInformer =
  inf_client :: "DynamicClient option"
  inf_resource :: GroupVersionResource
  inf_namespace :: string
  inf_resyncPeriod :: nat
  inf_indexers :: Indexers
  inf_tweakListOptions :: "TweakListOptionsFunc option"
  inf_handlers :: "'x ResourceEventHandlerFuncs list"
  inf_items :: "(string \<times> Unstructured) list"

definition dynamicinformer_NewFilteredDynamicInformer ::
  "DynamicClient option \<Rightarrow> GroupVersionResource \<Rightarrow> string \<Rightarrow> nat \<Rightarrow> Indexers
     \<Rightarrow> TweakListOptionsFunc option \<Rightarrow> 'x GenericInformer" where
  "dynamicinformer_NewFilteredDynamicInformer client gvr namespace resyncPeriod indexers tweakListOptions =
     \<lparr>inf_client = client, inf_resource = gvr, inf_namespace = namespace,
      inf_resyncPeriod = resyncPeriod, inf_indexers = indexers,
      inf_tweakListOptions = tweakListOptions, inf_handlers = [], inf_items = []\<rparr>"

text \<open>\<^verbatim>\<open>Informer().AddEventHandler\<close>: the handler joins the registered ones.\<close>

definition informer_AddEventHandler ::
  "'x GenericInformer \<Rightarrow> 'x ResourceEventHandlerFuncs \<Rightarrow> 'x GenericInformer" where
  "informer_AddEventHandler infr h = infr\<lparr>inf_handlers := inf_handlers infr @ [h]\<rparr>"


text \<open>
  \<^verbatim>\<open>Lister().ByNamespace(namespace).List(selector)\<close>: the stored objects of the namespace
  (of every namespace when it is empty) that the selector accepts, and no error.
\<close>

type_synonym Selector = "Unstructured \<Rightarrow> bool"

definition labels_Everything :: Selector where
  "labels_Everything obj = True"

definition Lister_ByNamespace_List ::
  "(string \<times> Unstructured) list \<Rightarrow> string \<Rightarrow> Selector \<Rightarrow> Unstructured list \<times> error option" where
  "Lister_ByNamespace_List items namespace selector =
     (filter (\<lambda>obj. (namespace = [] \<or> u_namespace obj = namespace) \<and> selector obj)
        (map snd items), None)"



subsection \<open>The watcher\<close>

definition WatcherTypeDynamic :: string where
  "WatcherTypeDynamic = ''Dynamic''"

definition WatcherTypeStandard :: string where
  "WatcherTypeStandard = ''Standard''"

text \<open>
  \<^verbatim>\<open>workqueue.RateLimitingInterface\<close>: the keys waiting in the queue.
  \<^verbatim>\<open>cache.GenericLister\<close> reads the informer's indexer and holds nothing of its own.
  \<^verbatim>\<open>chan struct{}\<close> is the unbuffered stop channel.
\<close>

type_synonym RateLimitingQueue = "string list"

definition workqueue_NewRateLimitingQueue :: RateLimitingQueue where
  "workqueue_NewRateLimitingQueue = []"

datatype GenericLister = GenericListerOf GroupVersionResource

datatype Chan = MakeChan

record 'x K8sResourceWatcher =
  Gvr :: GroupVersionResource
  Namespace :: string
  queue :: RateLimitingQueue
  informer :: "'x GenericInformer option"
  lister :: "GenericLister option"
  stop :: Chan

text \<open>
  \<^verbatim>\<open>NewDynamicWatcher\<close>.  The range loop stores every entry of \<open>indexers\<close> into
  \<open>defaultIndexers\<close>, a later store under a name replacing what was there: the map
  override \<open>++\<close>.  The struct literal sets no \<open>Gvr\<close>, which keeps its zero value.
\<close>

definition NewDynamicWatcher ::
  "DynamicClient option \<Rightarrow> GroupVersionResource \<Rightarrow> string \<Rightarrow> nat \<Rightarrow> Indexers
     \<Rightarrow> TweakListOptionsFunc option \<Rightarrow> 'x K8sResourceWatcher" where
  "NewDynamicWatcher client resource namespace resync indexers listOptionsFunc =
     (let defaultIndexers = [cache_NamespaceIndex \<mapsto> cache_MetaNamespaceIndexFunc];
          defaultIndexers =
            (if dom indexers \<noteq> {} then defaultIndexers ++ indexers else defaultIndexers);
          informer = dynamicinformer_NewFilteredDynamicInformer client resource namespace resync
                       defaultIndexers listOptionsFunc;
          queue = workqueue_NewRateLimitingQueue
      in \<lparr>Gvr = GroupVersionResource_zero, Namespace = namespace, queue = queue,
          informer = Some informer, lister = Some (GenericListerOf resource),
          stop = MakeChan\<rparr>)"

definition GetObjectsInNamespace :: "'x K8sResourceWatcher \<Rightarrow> string \<Rightarrow> panic + unit" where
  "GetObjectsInNamespace w namespace =
     (case informer w of
        None \<Rightarrow> Inl NilDereference
      | Some infr \<Rightarrow>
          (case Lister_ByNamespace_List (inf_items infr) namespace labels_Everything of
             (objs, err) \<Rightarrow> Inr ()))"


definition AddEventHandler ::
  "'x K8sResourceWatcher \<Rightarrow> (Unstructured \<Rightarrow> 'x \<Rightarrow> 'x) option \<Rightarrow> (Unstructured \<Rightarrow> 'x \<Rightarrow> 'x) option
     \<Rightarrow> (Unstructured \<Rightarrow> Unstructured \<Rightarrow> 'x \<Rightarrow> 'x) option \<Rightarrow> panic + 'x K8sResourceWatcher" where
  "AddEventHandler w addHandler delHandler updateHandler =
     (case informer w of
        None \<Rightarrow> Inl NilDereference
      | Some infr \<Rightarrow>
          Inr (w\<lparr>informer := Some (informer_AddEventHandler infr
                 \<lparr>AddFunc = addHandler, UpdateFunc = updateHandler,
                  DeleteFunc = delHandler\<rparr>)\<rparr>))"




section \<open>A small cluster to run the definitions on\<close>

text \<open>
  A server that is reachable or not and counts the objects it has created.  It rejects an
  object named \<^verbatim>\<open>bad\<close>, knows the group/version \<^verbatim>\<open>apps/v1\<close>, and answers nothing while
  it is unreachable.
\<close>

record example_server =
  reachable :: bool
  created :: nat

definition example_Create ::
  "Context \<Rightarrow> Unstructured \<Rightarrow> CreateOptions \<Rightarrow> example_server
     \<Rightarrow> (Unstructured \<times> error option) \<times> example_server" where
  "example_Create ctx u opts s =
     (if \<not> reachable s then ((u, Some (External ''connection refused'')), s)
      else if u_name u = ''bad'' then ((u, Some (External ''invalid'')), s)
      else ((u\<lparr>u_resourceVersion := ''1''\<rparr>, None), s\<lparr>created := Suc (created s)\<rparr>))"

definition example_gv :: GroupVersion where
  "example_gv = \<lparr>gv_Group = ''apps'', gv_Version = ''v1''\<rparr>"

definition example_cluster :: "example_server Cluster" where
  "example_cluster =
     \<lparr>GetScheme = \<lparr>observedVersions = []\<rparr>, GetClient = \<lparr>Create = example_Create\<rparr>\<rparr>"

definition example_resources :: APIResourceList where
  "example_resources =
     \<lparr>arl_GroupVersion = ''apps/v1'',
      APIResources =
        [\<lparr>api_Name = ''statefulsets'', api_Kind = ''StatefulSet''\<rparr>,
         \<lparr>api_Name = ''deployments'', api_Kind = ''Deployment''\<rparr>,
         \<lparr>api_Name = ''deployments/status'', api_Kind = ''Deployment''\<rparr>]\<rparr>"

definition example_clientset :: "example_server Clientset" where
  "example_clientset =
     \<lparr>ServerResourcesForGroupVersion =
        (\<lambda>groupVersion s.
           if \<not> reachable s then Inl (External ''connection refused'')
           else if groupVersion = ''apps/v1'' then Inr example_resources
           else Inl (External ''the server could not find the requested resource'')),
      ServerVersion =
        (\<lambda>s. if reachable s then Inr ''v1.25.0'' else Inl (External ''connection refused''))\<rparr>"

definition example_client :: "example_server GenericK8sClient" where
  "example_client =
     \<lparr>TargetK8sApiServerId = ''c1'', AuthType = AuthTypeToken, kubeConfig = None,
      restConfig = None, runtimeCluster = Some example_cluster, mgrCtx = Background,
      standardClient = Some example_clientset, dynamicClient = None,
      schemeLock = Some Mutex\<rparr>"

definition example_object :: "string \<Rightarrow> Unstructured" where
  "example_object n =
     \<lparr>u_gvk = \<lparr>gvk_Group = ''apps'', gvk_Version = ''v1'', gvk_Kind = ''Deployment''\<rparr>,
      u_namespace = ''team-a'', u_name = n, u_resourceVersion = []\<rparr>"

definition example_world :: "example_server world" where
  "example_world =
     \<lparr>heap = [1 \<mapsto> example_object ''a'', 2 \<mapsto> example_object ''bad'', 3 \<mapsto> example_object ''c''],
      server = \<lparr>reachable = True, created = 0\<rparr>\<rparr>"



definition example_down :: example_server where
  "example_down = \<lparr>reachable = False, created = 0\<rparr>"

definition example_register :: "unit addSchemeFunc" where
  "example_register s x = ((s\<lparr>observedVersions := observedVersions s @ [example_gv]\<rparr>, None), x)"

definition example_failing :: "unit addSchemeFunc" where
  "example_failing s x = ((s, Some (External ''conflicting kinds'')), x)"

text \<open>
  A watcher of deployments in \<^verbatim>\<open>team-a\<close> whose caller notes every event it is told of,
  and an index function of a caller.
\<close>

definition example_gvr :: GroupVersionResource where
  "example_gvr = \<lparr>gvr_Group = ''apps'', gvr_Version = ''v1'', gvr_Resource = ''deployments''\<rparr>"





definition example_NameIndexFunc :: IndexFunc where
  "example_NameIndexFunc obj = ([u_name obj], None)"



text \<open>The index function the watcher's informer holds under a name, if any.\<close>

definition watcher_index :: "'x K8sResourceWatcher \<Rightarrow> string \<Rightarrow> IndexFunc option" where
  "watcher_index w name = (case informer w of None \<Rightarrow> None | Some infr \<Rightarrow> inf_indexers infr name)"

text \<open>
  How often a counting callback has run when a call returned, the callback that does what
  \<open>f\<close> does and returns \<open>err\<close>, and a client whose scheme already knows \<^verbatim>\<open>apps/v1\<close>.
\<close>

definition runs_of :: "panic + ('c \<times> nat \<times> 'x) \<Rightarrow> nat option" where
  "runs_of r = (case r of Inl p \<Rightarrow> None | Inr (c, n, x) \<Rightarrow> Some n)"

definition returning :: "error option \<Rightarrow> 'x addSchemeFunc \<Rightarrow> 'x addSchemeFunc" where
  "returning err f = (\<lambda>s x. case f s x of ((s', e), x') \<Rightarrow> ((s', err), x'))"

definition example_registered :: "example_server GenericK8sClient" where
  "example_registered =
     example_client\<lparr>runtimeCluster :=
       Some (example_cluster\<lparr>GetScheme := \<lparr>observedVersions = [example_gv]\<rparr>\<rparr>)\<rparr>"

section \<open>The apply engine\<close>

lemma ApplyUnstructuredObj_facts:
  assumes "ApplyUnstructuredObj c ctx obj fm w = Inr ((r, err), w')"
  shows "Success r = (err = None)" and "Error r = err" and "ResultObject r = obj"
    and "dom (heap w') = dom (heap w)"
  using assms
  by (auto simp: ApplyUnstructuredObj_def split: option.splits prod.splits if_splits)

lemma ApplyUnstructuredObj_total:
  assumes "GetRuntimeCluster c = Some cl" and "obj \<in> dom (heap w)"
  shows "\<exists>r err w'. ApplyUnstructuredObj c ctx obj fm w = Inr ((r, err), w')"
  using assms by (auto simp: ApplyUnstructuredObj_def split: option.splits prod.splits)

text \<open>
  C7.  With a cluster client and a live object, \<^verbatim>\<open>ApplyUnstructuredObj\<close> makes exactly the
  call \<open>Create\<close> with the field manager it was given and returns the error of that call
  together with a result whose \<open>Success\<close> holds exactly when that error is nil, whose
  \<open>Error\<close> is that error and whose \<open>ResultObject\<close> is the pointer that was submitted;
  the object behind the pointer is as \<open>Create\<close> left it.
\<close>

theorem ApplyUnstructuredObj_result:
  assumes "GetRuntimeCluster c = Some cl" and "heap w obj = Some u"
    and "Create (GetClient cl) ctx u \<lparr>FieldManager = fm\<rparr> (server w) = ((u', err), s')"
  shows "\<exists>r w'. ApplyUnstructuredObj c ctx obj fm w = Inr ((r, err), w')
           \<and> Success r = (err = None) \<and> Error r = err \<and> ResultObject r = obj
           \<and> Gvk r = u_gvk u' \<and> heap w' = (heap w)(obj \<mapsto> u') \<and> server w' = s'"
  using assms by (simp add: ApplyUnstructuredObj_def)

theorem ApplyUnstructuredObj_result_witness:
  "GetRuntimeCluster example_client = Some example_cluster
   \<and> heap example_world 1 = Some (example_object ''a'')
   \<and> Create (GetClient example_cluster) Background (example_object ''a'')
        \<lparr>FieldManager = ''kit''\<rparr> (server example_world)
      = (((example_object ''a'')\<lparr>u_resourceVersion := ''1''\<rparr>, None),
         \<lparr>reachable = True, created = 1\<rparr>)
   \<and> (\<exists>r w'. ApplyUnstructuredObj example_client Background 1 ''kit'' example_world
                = Inr ((r, None), w')
         \<and> Success r \<and> Error r = None \<and> ResultObject r = 1
         \<and> server w' = \<lparr>reachable = True, created = 1\<rparr>)"
proof -
  have a: "GetRuntimeCluster example_client = Some example_cluster"
    by (simp add: GetRuntimeCluster_def example_client_def)
  have b: "heap example_world 1 = Some (example_object ''a'')"
    by (simp add: example_world_def)
  have c: "Create (GetClient example_cluster) Background (example_object ''a'')
        \<lparr>FieldManager = ''kit''\<rparr> (server example_world)
      = (((example_object ''a'')\<lparr>u_resourceVersion := ''1''\<rparr>, None),
         \<lparr>reachable = True, created = 1\<rparr>)"
    by (simp add: example_cluster_def example_Create_def example_object_def example_world_def)
  from ApplyUnstructuredObj_result [OF a b c] a b c show ?thesis by auto
qed

lemma apply_each_in_order_total:
  assumes "GetRuntimeCluster c = Some cl"
  shows "set objs \<subseteq> dom (heap w) \<Longrightarrow> \<exists>rs w'. apply_each_in_order c ctx fm objs w = Inr (rs, w')"
proof (induction objs arbitrary: w)
  case Nil
  then show ?case by simp
next
  case (Cons obj objs)
  from Cons.prems have "obj \<in> dom (heap w)" by simp
  with assms obtain r err w1 where a: "ApplyUnstructuredObj c ctx obj fm w = Inr ((r, err), w1)"
    using ApplyUnstructuredObj_total by blast
  then have "dom (heap w1) = dom (heap w)" by (rule ApplyUnstructuredObj_facts(4))
  with Cons.prems have "set objs \<subseteq> dom (heap w1)" by simp
  then obtain rs w2 where "apply_each_in_order c ctx fm objs w1 = Inr (rs, w2)"
    using Cons.IH by blast
  with a show ?case by simp
qed

lemma apply_each_in_order_objects:
  "apply_each_in_order c ctx fm objs w = Inr (rs, w') \<Longrightarrow> map ResultObject rs = objs"
proof (induction objs arbitrary: w rs)
  case Nil
  then show ?case by simp
next
  case (Cons obj objs)
  then show ?case
    by (auto split: sum.splits prod.splits dest: ApplyUnstructuredObj_facts(3))
qed

lemma batch_loop_partition:
  "apply_each_in_order c ctx fm objs w = Inr (rs, w') \<Longrightarrow>
   ApplyUnstructuredObjsBatch_loop c ctx fm objs succ failed w =
     Inr ((succ @ filter Success rs, failed @ filter (\<lambda>r. \<not> Success r) rs), w')"
proof (induction objs arbitrary: w rs succ failed)
  case Nil
  then show ?case by simp
next
  case (Cons obj objs)
  from Cons.prems obtain r err w1 rs1 where
    a: "ApplyUnstructuredObj c ctx obj fm w = Inr ((r, err), w1)" and
    b: "apply_each_in_order c ctx fm objs w1 = Inr (rs1, w')" and
    c: "rs = r # rs1"
    by (auto split: sum.splits prod.splits)
  from a have s: "Success r = (err = None)" by (rule ApplyUnstructuredObj_facts(1))
  show ?case
  proof (cases "err = None")
    case True
    with a s c Cons.IH [OF b, of "succ @ [r]" failed] show ?thesis by simp
  next
    case False
    with a s c Cons.IH [OF b, of succ "failed @ [r]"] show ?thesis by simp
  qed
qed

lemma filter_single:
  "k < length xs \<Longrightarrow> P (xs ! k) \<Longrightarrow> \<forall>j<length xs. j \<noteq> k \<longrightarrow> \<not> P (xs ! j) \<Longrightarrow> filter P xs = [xs ! k]"
proof (induction xs arbitrary: k)
  case Nil
  then show ?case by simp
next
  case (Cons x xs)
  show ?case
  proof (cases k)
    case 0
    have "\<forall>y\<in>set xs. \<not> P y"
    proof
      fix y assume "y \<in> set xs"
      then obtain i where "i < length xs" "xs ! i = y" by (auto simp: in_set_conv_nth)
      with Cons.prems(3) [rule_format, of "Suc i"] 0 show "\<not> P y" by auto
    qed
    then have "filter P xs = []" by (simp add: filter_empty_conv)
    with 0 Cons.prems(2) show ?thesis by simp
  next
    case (Suc k')
    from Cons.prems(3) [rule_format, of 0] Suc have "\<not> P x" by simp
    moreover have "filter P xs = [xs ! k']"
    proof (rule Cons.IH)
      show "k' < length xs" using Cons.prems(1) Suc by simp
      show "P (xs ! k')" using Cons.prems(2) Suc by simp
      show "\<forall>j<length xs. j \<noteq> k' \<longrightarrow> \<not> P (xs ! j)"
      proof (intro allI impI)
        fix j assume "j < length xs" "j \<noteq> k'"
        with Cons.prems(3) [rule_format, of "Suc j"] Suc show "\<not> P (xs ! j)" by simp
      qed
    qed
    ultimately show ?thesis using Suc by simp
  qed
qed

text \<open>
  C2.  With a cluster client and live objects, \<^verbatim>\<open>ApplyUnstructuredObjsBatch\<close> returns, and
  its two slices are the successes and the failures of applying every object on its own in
  the given order, each slice in that order: one result per object, naming that object.
  Together they have as many entries as there are objects; and when object \<open>k\<close> is the
  only one that fails, the successes are all the others, the failures are the single result
  of object \<open>k\<close>, and that result names object \<open>k\<close>.
\<close>

theorem ApplyUnstructuredObjsBatch_partition:
  assumes "GetRuntimeCluster c = Some cl" and "set objs \<subseteq> dom (heap w)"
  shows "\<exists>rs w'. apply_each_in_order c ctx fm objs w = Inr (rs, w')
      \<and> ApplyUnstructuredObjsBatch c ctx objs fm w
          = Inr ((filter Success rs, filter (\<lambda>r. \<not> Success r) rs), w')
      \<and> map ResultObject rs = objs
      \<and> length (filter Success rs) + length (filter (\<lambda>r. \<not> Success r) rs) = length objs
      \<and> (\<forall>k<length objs.
            \<not> Success (rs ! k) \<and> (\<forall>j<length objs. j \<noteq> k \<longrightarrow> Success (rs ! j)) \<longrightarrow>
              length (filter Success rs) = length objs - 1
            \<and> filter (\<lambda>r. \<not> Success r) rs = [rs ! k]
            \<and> ResultObject (rs ! k) = objs ! k)"
proof -
  from assms obtain rs w' where run: "apply_each_in_order c ctx fm objs w = Inr (rs, w')"
    using apply_each_in_order_total by blast
  have batch: "ApplyUnstructuredObjsBatch c ctx objs fm w
          = Inr ((filter Success rs, filter (\<lambda>r. \<not> Success r) rs), w')"
    using batch_loop_partition [OF run, of "[]" "[]"] by (simp add: ApplyUnstructuredObjsBatch_def)
  have objects: "map ResultObject rs = objs"
    using run by (rule apply_each_in_order_objects)
  then have len: "length rs = length objs"
    by (metis length_map)
  have total: "length (filter Success rs) + length (filter (\<lambda>r. \<not> Success r) rs) = length objs"
    using len by (simp add: sum_length_filter_compl)
  have one: "length (filter Success rs) = length objs - 1
            \<and> filter (\<lambda>r. \<not> Success r) rs = [rs ! k]
            \<and> ResultObject (rs ! k) = objs ! k"
    if k: "k < length objs" and bad: "\<not> Success (rs ! k)"
      and others: "\<forall>j<length objs. j \<noteq> k \<longrightarrow> Success (rs ! j)" for k
  proof -
    have f: "filter (\<lambda>r. \<not> Success r) rs = [rs ! k]"
      using k bad others len by (intro filter_single) auto
    with total have "length (filter Success rs) = length objs - 1" by simp
    moreover have "ResultObject (rs ! k) = objs ! k"
      using objects k len by (metis nth_map)
    ultimately show ?thesis using f by simp
  qed
  from run batch objects total one show ?thesis by blast
qed

theorem ApplyUnstructuredObjsBatch_partition_witness:
  "GetRuntimeCluster example_client = Some example_cluster
   \<and> set [1, 2, 3] \<subseteq> dom (heap example_world)
   \<and> (\<exists>rs w'. ApplyUnstructuredObjsBatch example_client Background [1, 2, 3] ''kit'' example_world
                 = Inr ((filter Success rs, filter (\<lambda>r. \<not> Success r) rs), w')
          \<and> map Success rs = [True, False, True]
          \<and> length (filter Success rs) = 2
          \<and> filter (\<lambda>r. \<not> Success r) rs = [rs ! 1]
          \<and> ResultObject (rs ! 1) = 2)"
proof -
  have a: "GetRuntimeCluster example_client = Some example_cluster"
    by (simp add: GetRuntimeCluster_def example_client_def)
  have b: "set [1, 2, 3] \<subseteq> dom (heap example_world)"
    by (simp add: example_world_def)
  from ApplyUnstructuredObjsBatch_partition [OF a b, of Background "''kit''"]
  obtain rs w' where
    run: "apply_each_in_order example_client Background ''kit'' [1, 2, 3] example_world = Inr (rs, w')"
    and batch: "ApplyUnstructuredObjsBatch example_client Background [1, 2, 3] ''kit'' example_world
                 = Inr ((filter Success rs, filter (\<lambda>r. \<not> Success r) rs), w')"
    and one: "\<forall>k<length [1, 2, 3::nat].
            \<not> Success (rs ! k) \<and> (\<forall>j<length [1, 2, 3::nat]. j \<noteq> k \<longrightarrow> Success (rs ! j)) \<longrightarrow>
              length (filter Success rs) = length [1, 2, 3::nat] - 1
            \<and> filter (\<lambda>r. \<not> Success r) rs = [rs ! k]
            \<and> ResultObject (rs ! k) = [1, 2, 3] ! k"
    by blast
  from run have s: "map Success rs = [True, False, True]"
    by (auto simp: ApplyUnstructuredObj_def GetRuntimeCluster_def example_client_def
        example_cluster_def example_Create_def example_object_def example_world_def)
  then obtain r0 r1 r2 where rs: "rs = [r0, r1, r2]" by auto
  with s have flags: "Success r0" "\<not> Success r1" "Success r2" by simp_all
  have others: "\<forall>j<length [1, 2, 3::nat]. j \<noteq> 1 \<longrightarrow> Success (rs ! j)"
    using rs flags by (auto simp: less_Suc_eq numeral_3_eq_3)
  from one [rule_format, of 1] others rs flags
  have "length (filter Success rs) = 2 \<and> filter (\<lambda>r. \<not> Success r) rs = [rs ! 1]
        \<and> ResultObject (rs ! 1) = 2"
    by simp
  with a b batch s show ?thesis by auto
qed


section \<open>The watcher\<close>

lemma AddEventHandler_queue:
  "AddEventHandler w a d u = Inr w' \<Longrightarrow> queue w' = queue w"
  by (auto simp: AddEventHandler_def split: option.splits)











lemma default_indexers_override:
  "(if dom indexers \<noteq> {} then d ++ indexers else d) = d ++ (indexers :: Indexers)"
  by simp

lemma NewDynamicWatcher_informer:
  "informer (NewDynamicWatcher client resource namespace resync indexers tweak)
     = Some (dynamicinformer_NewFilteredDynamicInformer client resource namespace resync
               ([cache_NamespaceIndex \<mapsto> cache_MetaNamespaceIndexFunc] ++ indexers) tweak)"
  by (simp only: NewDynamicWatcher_def Let_def default_indexers_override K8sResourceWatcher.simps)

text \<open>
  C8, as the code has it.  The indexers \<^verbatim>\<open>NewDynamicWatcher\<close> hands to the informer are
  the default namespace index overridden by the caller's indexers.  They always have an
  entry named \<^verbatim>\<open>namespace\<close>; every index function of the caller is there under the
  caller's name for it; and the entry named \<^verbatim>\<open>namespace\<close> is the default function, which
  indexes by namespace alone, whenever the caller supplied none under that name.
\<close>

theorem NewDynamicWatcher_indexers:
  "\<exists>infr. informer (NewDynamicWatcher client resource namespace resync indexers tweak) = Some infr
     \<and> inf_indexers infr = [cache_NamespaceIndex \<mapsto> cache_MetaNamespaceIndexFunc] ++ indexers
     \<and> cache_NamespaceIndex \<in> dom (inf_indexers infr)
     \<and> (\<forall>name f. indexers name = Some f \<longrightarrow> inf_indexers infr name = Some f)
     \<and> (indexers cache_NamespaceIndex = None \<longrightarrow>
          inf_indexers infr cache_NamespaceIndex = Some cache_MetaNamespaceIndexFunc)"
proof -
  let ?infr = "dynamicinformer_NewFilteredDynamicInformer client resource namespace resync
                 ([cache_NamespaceIndex \<mapsto> cache_MetaNamespaceIndexFunc] ++ indexers) tweak"
  have b: "inf_indexers ?infr = [cache_NamespaceIndex \<mapsto> cache_MetaNamespaceIndexFunc] ++ indexers"
    by (simp add: dynamicinformer_NewFilteredDynamicInformer_def)
  have c: "cache_NamespaceIndex \<in> dom (inf_indexers ?infr)"
    unfolding b by simp
  have d: "\<forall>name f. indexers name = Some f \<longrightarrow> inf_indexers ?infr name = Some f"
    unfolding b by (simp add: map_add_Some_iff)
  have e: "indexers cache_NamespaceIndex = None \<longrightarrow>
          inf_indexers ?infr cache_NamespaceIndex = Some cache_MetaNamespaceIndexFunc"
    unfolding b by (simp add: map_add_Some_iff)
  show ?thesis
    by (rule exI [of _ ?infr]) (intro conjI NewDynamicWatcher_informer b c d e)
qed

theorem NewDynamicWatcher_indexers_witness:
  "[''byName'' \<mapsto> example_NameIndexFunc] ''byName'' = Some example_NameIndexFunc
   \<and> [''byName'' \<mapsto> example_NameIndexFunc] cache_NamespaceIndex = None
   \<and> watcher_index (NewDynamicWatcher None example_gvr ''team-a'' 0
                       [''byName'' \<mapsto> example_NameIndexFunc] None :: string list K8sResourceWatcher)
       ''byName'' = Some example_NameIndexFunc
   \<and> watcher_index (NewDynamicWatcher None example_gvr ''team-a'' 0
                       [''byName'' \<mapsto> example_NameIndexFunc] None :: string list K8sResourceWatcher)
       cache_NamespaceIndex = Some cache_MetaNamespaceIndexFunc"
proof -
  let ?ix = "[''byName'' \<mapsto> example_NameIndexFunc]"
  let ?w = "NewDynamicWatcher None example_gvr ''team-a'' 0 ?ix None :: string list K8sResourceWatcher"
  have a: "?ix ''byName'' = Some example_NameIndexFunc" by simp
  have b: "?ix cache_NamespaceIndex = None" by (simp add: cache_NamespaceIndex_def)
  from NewDynamicWatcher_indexers [of None example_gvr "''team-a''" 0 ?ix None]
  obtain infr :: "string list GenericInformer" where i: "informer ?w = Some infr"
    and d: "\<forall>name f. ?ix name = Some f \<longrightarrow> inf_indexers infr name = Some f"
    and e: "?ix cache_NamespaceIndex = None \<longrightarrow>
          inf_indexers infr cache_NamespaceIndex = Some cache_MetaNamespaceIndexFunc"
    by (elim exE conjE)
  from d [rule_format, OF a] have "inf_indexers infr ''byName'' = Some example_NameIndexFunc" .
  moreover from e b have "inf_indexers infr cache_NamespaceIndex = Some cache_MetaNamespaceIndexFunc"
    by (rule mp)
  ultimately show ?thesis using a b i by (simp add: watcher_index_def)
qed

text \<open>
  C8 as stated fails: a caller's index function under the name \<^verbatim>\<open>namespace\<close> replaces
  the default, so the informer is not handed the index by namespace alone.
\<close>

theorem NewDynamicWatcher_indexers_counterexample:
  "watcher_index (NewDynamicWatcher None example_gvr ''team-a'' 0
                    [cache_NamespaceIndex \<mapsto> example_NameIndexFunc] None :: string list K8sResourceWatcher)
     cache_NamespaceIndex = Some example_NameIndexFunc
   \<and> example_NameIndexFunc \<noteq> cache_MetaNamespaceIndexFunc"
proof
  show "watcher_index (NewDynamicWatcher None example_gvr ''team-a'' 0
                    [cache_NamespaceIndex \<mapsto> example_NameIndexFunc] None :: string list K8sResourceWatcher)
     cache_NamespaceIndex = Some example_NameIndexFunc"
    by (simp add: watcher_index_def NewDynamicWatcher_def Let_def
        dynamicinformer_NewFilteredDynamicInformer_def)
  show "example_NameIndexFunc \<noteq> cache_MetaNamespaceIndexFunc"
  proof
    assume "example_NameIndexFunc = cache_MetaNamespaceIndexFunc"
    then have "example_NameIndexFunc (example_object ''a'') = cache_MetaNamespaceIndexFunc (example_object ''a'')"
      by simp
    then show False
      by (simp add: example_NameIndexFunc_def cache_MetaNamespaceIndexFunc_def example_object_def)
  qed
qed

lemma Lister_ByNamespace_List_set:
  "set (fst (Lister_ByNamespace_List items namespace labels_Everything))
     = {obj \<in> snd ` set items. namespace = [] \<or> u_namespace obj = namespace}"
  by (auto simp: Lister_ByNamespace_List_def labels_Everything_def)

text \<open>
  C9.  \<^verbatim>\<open>GetObjectsInNamespace\<close> returns no value: with an informer its outcome is the
  bare return, whatever the store holds and whatever namespace is asked for, although the
  list it computes is the store's objects of that namespace.
\<close>

theorem GetObjectsInNamespace_returns_nothing:
  "GetObjectsInNamespace w namespace = (if informer w = None then Inl NilDereference else Inr ())
   \<and> GetObjectsInNamespace (w\<lparr>informer := Some (infr\<lparr>inf_items := items\<rparr>)\<rparr>) namespace
       = GetObjectsInNamespace (w\<lparr>informer := Some (infr\<lparr>inf_items := items'\<rparr>)\<rparr>) namespace'
   \<and> set (fst (Lister_ByNamespace_List items namespace labels_Everything))
       = {obj \<in> snd ` set items. namespace = [] \<or> u_namespace obj = namespace}"
  by (simp add: GetObjectsInNamespace_def Lister_ByNamespace_List_set split: option.splits prod.splits)


section \<open>Kind resolution and scheme registration\<close>

lemma GvkToGvr_scan_find:
  "GvkToGvr_scan resources gvk =
     (case find (\<lambda>r. api_Kind r = gvk_Kind gvk) resources of
        Some r \<Rightarrow> (\<lparr>gvr_Group = gvk_Group gvk, gvr_Version = gvk_Version gvk,
                     gvr_Resource = api_Name r\<rparr>, None)
      | None \<Rightarrow> (GroupVersionResource_zero, Some (ErrorsNew (msg_not_found @ gvk_String gvk))))"
  by (induction resources) simp_all

text \<open>
  C3.  With a standard client, \<^verbatim>\<open>GvkToGvr\<close> asks discovery for the group/version of the
  kind (\<^verbatim>\<open>group/version\<close>, or the version alone for the empty group).  If discovery fails,
  its error is returned as it is.  Otherwise the first listed resource whose kind is the
  kind asked for gives the result: the group and version of the input with that
  resource's name, and no error.  If no listed resource has that kind, the error is a new
  one whose text ends in the group, version and kind asked for.
\<close>

theorem GvkToGvr_resolves:
  assumes "GetStandardClient c = Some sc"
  shows "gv_String (gvk_GroupVersion gvk)
           = (if gvk_Group gvk = [] then gvk_Version gvk else gvk_Group gvk @ ''/'' @ gvk_Version gvk)
    \<and> (\<forall>err. ServerResourcesForGroupVersion sc (gv_String (gvk_GroupVersion gvk)) srv = Inl err \<longrightarrow>
          GvkToGvr c gvk srv = Inr (GroupVersionResource_zero, Some err))
    \<and> (\<forall>rl r. ServerResourcesForGroupVersion sc (gv_String (gvk_GroupVersion gvk)) srv = Inr rl
               \<and> find (\<lambda>r. api_Kind r = gvk_Kind gvk) (APIResources rl) = Some r \<longrightarrow>
          GvkToGvr c gvk srv
            = Inr (\<lparr>gvr_Group = gvk_Group gvk, gvr_Version = gvk_Version gvk,
                    gvr_Resource = api_Name r\<rparr>, None))
    \<and> (\<forall>rl. ServerResourcesForGroupVersion sc (gv_String (gvk_GroupVersion gvk)) srv = Inr rl
             \<and> (\<forall>r\<in>set (APIResources rl). api_Kind r \<noteq> gvk_Kind gvk) \<longrightarrow>
          GvkToGvr c gvk srv
            = Inr (GroupVersionResource_zero, Some (ErrorsNew (msg_not_found @ gvk_String gvk))))
    \<and> error_message (ErrorsNew (msg_not_found @ gvk_String gvk))
        = msg_not_found @ gvk_Group gvk @ ''/'' @ gvk_Version gvk @ '', Kind='' @ gvk_Kind gvk"
proof (intro conjI allI impI)
  show "gv_String (gvk_GroupVersion gvk)
           = (if gvk_Group gvk = [] then gvk_Version gvk else gvk_Group gvk @ ''/'' @ gvk_Version gvk)"
    by (simp add: gv_String_def gvk_GroupVersion_def)
next
  fix err
  assume "ServerResourcesForGroupVersion sc (gv_String (gvk_GroupVersion gvk)) srv = Inl err"
  with assms show "GvkToGvr c gvk srv = Inr (GroupVersionResource_zero, Some err)"
    by (simp add: GvkToGvr_def)
next
  fix rl r
  assume "ServerResourcesForGroupVersion sc (gv_String (gvk_GroupVersion gvk)) srv = Inr rl
               \<and> find (\<lambda>r. api_Kind r = gvk_Kind gvk) (APIResources rl) = Some r"
  with assms show "GvkToGvr c gvk srv
            = Inr (\<lparr>gvr_Group = gvk_Group gvk, gvr_Version = gvk_Version gvk,
                    gvr_Resource = api_Name r\<rparr>, None)"
    by (simp add: GvkToGvr_def GvkToGvr_scan_find)
next
  fix rl
  assume a: "ServerResourcesForGroupVersion sc (gv_String (gvk_GroupVersion gvk)) srv = Inr rl
             \<and> (\<forall>r\<in>set (APIResources rl). api_Kind r \<noteq> gvk_Kind gvk)"
  then have "find (\<lambda>r. api_Kind r = gvk_Kind gvk) (APIResources rl) = None"
    by (simp add: find_None_iff)
  with assms a show "GvkToGvr c gvk srv
            = Inr (GroupVersionResource_zero, Some (ErrorsNew (msg_not_found @ gvk_String gvk)))"
    by (simp add: GvkToGvr_def GvkToGvr_scan_find)
next
  show "error_message (ErrorsNew (msg_not_found @ gvk_String gvk))
        = msg_not_found @ gvk_Group gvk @ ''/'' @ gvk_Version gvk @ '', Kind='' @ gvk_Kind gvk"
    by (simp add: gvk_String_def)
qed

theorem GvkToGvr_resolves_witness:
  "GetStandardClient example_client = Some example_clientset
   \<and> ServerResourcesForGroupVersion example_clientset ''apps/v1'' example_down
       = Inl (External ''connection refused'')
   \<and> GvkToGvr example_client \<lparr>gvk_Group = ''apps'', gvk_Version = ''v1'', gvk_Kind = ''Deployment''\<rparr>
         example_down
       = Inr (GroupVersionResource_zero, Some (External ''connection refused''))
   \<and> find (\<lambda>r. api_Kind r = ''Deployment'') (APIResources example_resources)
       = Some \<lparr>api_Name = ''deployments'', api_Kind = ''Deployment''\<rparr>
   \<and> GvkToGvr example_client \<lparr>gvk_Group = ''apps'', gvk_Version = ''v1'', gvk_Kind = ''Deployment''\<rparr>
         (server example_world)
       = Inr (\<lparr>gvr_Group = ''apps'', gvr_Version = ''v1'', gvr_Resource = ''deployments''\<rparr>, None)
   \<and> GvkToGvr example_client \<lparr>gvk_Group = ''apps'', gvk_Version = ''v1'', gvk_Kind = ''Job''\<rparr>
         (server example_world)
       = Inr (GroupVersionResource_zero,
              Some (ErrorsNew (msg_not_found @ ''apps/v1, Kind=Job'')))"
proof -
  let ?dep = "\<lparr>gvk_Group = ''apps'', gvk_Version = ''v1'', gvk_Kind = ''Deployment''\<rparr>"
  let ?job = "\<lparr>gvk_Group = ''apps'', gvk_Version = ''v1'', gvk_Kind = ''Job''\<rparr>"
  let ?up = "server example_world"
  have a: "GetStandardClient example_client = Some example_clientset"
    by (simp add: GetStandardClient_def example_client_def)
  have q: "gv_String (gvk_GroupVersion ?dep) = ''apps/v1''" "gv_String (gvk_GroupVersion ?job) = ''apps/v1''"
    by (simp_all add: gv_String_def gvk_GroupVersion_def)
  have down: "ServerResourcesForGroupVersion example_clientset ''apps/v1'' example_down
       = Inl (External ''connection refused'')"
    by (simp add: example_clientset_def example_down_def)
  have up: "ServerResourcesForGroupVersion example_clientset ''apps/v1'' ?up = Inr example_resources"
    by (simp add: example_clientset_def example_world_def)
  have found: "find (\<lambda>r. api_Kind r = ''Deployment'') (APIResources example_resources)
       = Some \<lparr>api_Name = ''deployments'', api_Kind = ''Deployment''\<rparr>"
    by (simp add: example_resources_def)
  have none: "\<forall>r\<in>set (APIResources example_resources). api_Kind r \<noteq> ''Job''"
    by (simp add: example_resources_def)
  note t1 = GvkToGvr_resolves [OF a, of ?dep example_down, unfolded q]
  note t2 = GvkToGvr_resolves [OF a, of ?dep ?up, unfolded q]
  note t3 = GvkToGvr_resolves [OF a, of ?job ?up, unfolded q]
  have r1: "GvkToGvr example_client ?dep example_down
       = Inr (GroupVersionResource_zero, Some (External ''connection refused''))"
    using t1 down by simp
  have r2: "GvkToGvr example_client ?dep ?up
       = Inr (\<lparr>gvr_Group = ''apps'', gvr_Version = ''v1'', gvr_Resource = ''deployments''\<rparr>, None)"
    using t2 up found by simp
  have r3: "GvkToGvr example_client ?job ?up
       = Inr (GroupVersionResource_zero, Some (ErrorsNew (msg_not_found @ ''apps/v1, Kind=Job'')))"
    using t3 up none by (simp add: gvk_String_def)
  from a down found r1 r2 r3 show ?thesis by (intro conjI)
qed

lemma AddScheme_Inr:
  assumes "schemeLock c = Some m" and "runtimeCluster c = Some cl"
  shows "AddScheme c (Some v) (Some f) x =
     (if \<not> IsVersionRegistered (GetScheme cl) v
      then Inr (c\<lparr>runtimeCluster := Some (cl\<lparr>GetScheme := fst (fst (f (GetScheme cl) x))\<rparr>)\<rparr>,
                snd (f (GetScheme cl) x))
      else Inr (c, x))"
  using assms by (simp add: AddScheme_def split: prod.splits)

lemma counting_parts:
  "fst (counting f s (n, x)) = fst (f s x)" "snd (counting f s (n, x)) = (Suc n, snd (f s x))"
  by (simp_all add: counting_def split: prod.splits)

text \<open>
  C5, as the code has it.  On a client with its lock and cluster, \<^verbatim>\<open>AddScheme\<close> runs the
  registration callback exactly when the group/version is not registered in the scheme.
  Two calls with the same group/version therefore run it once when the group/version
  was not registered and the first run registers it, not at all when it was registered
  before, and twice when the first run leaves it unregistered.
\<close>

theorem AddScheme_runs_callback_when_unregistered:
  assumes "schemeLock c = Some m" and "runtimeCluster c = Some cl"
  shows "runs_of (AddScheme c (Some v) (Some (counting f)) (n, x))
           = Some (n + (if IsVersionRegistered (GetScheme cl) v then 0 else 1))
       \<and> runs_of (AddScheme_twice c (Some v) (Some (counting f)) (Some (counting g)) (n, x))
           = Some (n + (if IsVersionRegistered (GetScheme cl) v then 0
                        else if IsVersionRegistered (fst (fst (f (GetScheme cl) x))) v then 1
                        else 2))"
proof (cases "IsVersionRegistered (GetScheme cl) v")
  case True
  with assms show ?thesis by (simp add: AddScheme_def AddScheme_twice_def runs_of_def)
next
  case False
  let ?s1 = "fst (fst (f (GetScheme cl) x))"
  let ?c1 = "c\<lparr>runtimeCluster := Some (cl\<lparr>GetScheme := ?s1\<rparr>)\<rparr>"
  have first: "AddScheme c (Some v) (Some (counting f)) (n, x) = Inr (?c1, (Suc n, snd (f (GetScheme cl) x)))"
    using AddScheme_Inr [OF assms, of v "counting f" "(n, x)"] False by (simp add: counting_parts)
  have lock: "schemeLock ?c1 = Some m" using assms(1) by simp
  have cl1: "runtimeCluster ?c1 = Some (cl\<lparr>GetScheme := ?s1\<rparr>)" by simp
  note second = AddScheme_Inr [OF lock cl1, of v "counting g" "(Suc n, snd (f (GetScheme cl) x))"]
  show ?thesis
  proof (cases "IsVersionRegistered ?s1 v")
    case True
    with second first False show ?thesis by (simp add: AddScheme_twice_def runs_of_def)
  next
    case nreg: False
    with second first False show ?thesis
      by (simp add: AddScheme_twice_def runs_of_def counting_parts)
  qed
qed

theorem AddScheme_runs_callback_when_unregistered_witness:
  "schemeLock example_client = Some Mutex
   \<and> runtimeCluster example_client = Some example_cluster
   \<and> runs_of (AddScheme example_client (Some example_gv) (Some (counting example_register)) (0, ()))
       = Some 1
   \<and> runs_of (AddScheme_twice example_client (Some example_gv) (Some (counting example_register))
                (Some (counting example_register)) (0, ()))
       = Some 1"
proof -
  have a: "schemeLock example_client = Some Mutex" by (simp add: example_client_def)
  have b: "runtimeCluster example_client = Some example_cluster" by (simp add: example_client_def)
  have u: "\<not> IsVersionRegistered (GetScheme example_cluster) example_gv"
    by (simp add: IsVersionRegistered_def example_cluster_def)
  have r: "IsVersionRegistered (fst (fst (example_register (GetScheme example_cluster) ()))) example_gv"
    by (simp add: IsVersionRegistered_def example_register_def)
  from AddScheme_runs_callback_when_unregistered
         [OF a b, of example_gv example_register 0 "()" example_register] a b u r
  show ?thesis by simp
qed

text \<open>
  C5 as stated fails: with \<^verbatim>\<open>apps/v1\<close> registered beforehand two calls run the callback
  not once but never, and with a callback that fails without registering it they run it
  twice.
\<close>

theorem AddScheme_twice_counterexample:
  "runs_of (AddScheme_twice example_registered (Some example_gv) (Some (counting example_register))
              (Some (counting example_register)) (0, ()))
     = Some 0
   \<and> runs_of (AddScheme_twice example_client (Some example_gv) (Some (counting example_failing))
                (Some (counting example_failing)) (0, ()))
     = Some 2"
  by (simp add: runs_of_def AddScheme_twice_def AddScheme_def example_registered_def
      example_client_def example_cluster_def IsVersionRegistered_def counting_def
      example_failing_def)

text \<open>
  C10.  \<^verbatim>\<open>AddScheme\<close> drops the error of the registration callback: whatever the callback
  returns, an error or nil, the call leaves the same client and the same caller state, and
  it returns nothing else.
\<close>

theorem AddScheme_discards_error:
  "AddScheme c gv (Some (returning err f)) x = AddScheme c gv (Some f) x"
  by (simp add: AddScheme_def returning_def split: option.splits prod.splits)

section \<open>Construction\<close>







end
